theory Spec2Isabelle
  imports Complex_Main
begin

section \<open>Data model\<close>

text \<open>
  The backend is an Express application over a document store. Documents are records,
  collections are lists of documents looked up by their identifier, and every route
  takes the store and returns its response together with the store it leaves behind.
  A JavaScript \<^verbatim>\<open>Number\<close> that holds money is an exact rational here (the
  rounding of IEEE doubles is outside the model); stock, sales and quantities are integers.
  A stored document is one that has passed its schema's validation; reading it and writing
  it back succeed.
\<close>

datatype role = Admin | Seller | Customer | Delivery

datatype status = Pending | Confirmed | Shipped | Delivered | Cancelled

text \<open>One constructor per error response of the routes; \<open>http_status\<close> is its status code.\<close>

datatype error =
    ValidationFailed
  | ProductNotFound nat
  | ProductNotAvailable nat
  | InsufficientStock nat
  | OnlyPendingCancellable
  | Unauthenticated
  | Forbidden
  | NotFound
  | ServerError

fun http_status :: "error \<Rightarrow> nat" where
  "http_status ValidationFailed = 400"
| "http_status (ProductNotFound _) = 400"
| "http_status (ProductNotAvailable _) = 400"
| "http_status (InsufficientStock _) = 400"
| "http_status OnlyPendingCancellable = 400"
| "http_status Unauthenticated = 401"
| "http_status Forbidden = 403"
| "http_status NotFound = 404"
| "http_status ServerError = 500"

record user =
  u_id :: nat
  u_role :: role
  u_isActive :: bool
  u_lastLogin :: "nat option"

record product =
  p_id :: nat
  p_seller :: nat
  p_price :: rat
  p_stock :: int
  p_sales :: int
  p_isActive :: bool

record order_item =
  i_product :: nat
  i_quantity :: int
  i_price :: rat
  i_total :: rat

record order =
  o_id :: nat
  o_customer :: nat
  o_items :: "order_item list"
  o_status :: status
  o_subtotal :: rat
  o_tax :: rat
  o_shippingCost :: rat
  o_total :: rat
  o_deliveryAgent :: "nat option"
  o_trackingNumber :: "string option"
  o_actualDelivery :: "nat option"
  o_isActive :: bool
  o_createdAt :: nat

record db =
  users :: "user list"
  products :: "product list"
  orders :: "order list"

text \<open>The status strings of the order schema's enum.\<close>

fun status_name :: "status \<Rightarrow> string" where
  "status_name Pending = ''pending''"
| "status_name Confirmed = ''confirmed''"
| "status_name Shipped = ''shipped''"
| "status_name Delivered = ''delivered''"
| "status_name Cancelled = ''cancelled''"

definition parse_status :: "string \<Rightarrow> status option" where
  "parse_status s =
     (if s = ''pending'' then Some Pending
      else if s = ''confirmed'' then Some Confirmed
      else if s = ''shipped'' then Some Shipped
      else if s = ''delivered'' then Some Delivered
      else if s = ''cancelled'' then Some Cancelled
      else None)"

section \<open>The store\<close>

definition findUserById :: "db \<Rightarrow> nat \<Rightarrow> user option" where
  "findUserById d i = find (\<lambda>u. u_id u = i) (users d)"

definition findProductById :: "product list \<Rightarrow> nat \<Rightarrow> product option" where
  "findProductById ps i = find (\<lambda>p. p_id p = i) ps"

definition findOrderById :: "db \<Rightarrow> nat \<Rightarrow> order option" where
  "findOrderById d i = find (\<lambda>x. o_id x = i) (orders d)"

text \<open>Writing a document back replaces the stored document with the same identifier;
  a document that is not stored yet is added.\<close>

fun replaceUser :: "user \<Rightarrow> user list \<Rightarrow> user list" where
  "replaceUser u [] = [u]"
| "replaceUser u (x # xs) = (if u_id x = u_id u then u # xs else x # replaceUser u xs)"

definition saveUser :: "user \<Rightarrow> db \<Rightarrow> db" where
  "saveUser u d = d\<lparr>users := replaceUser u (users d)\<rparr>"

fun replaceOrder :: "order \<Rightarrow> order list \<Rightarrow> order list" where
  "replaceOrder x [] = [x]"
| "replaceOrder x (y # ys) = (if o_id y = o_id x then x # ys else y # replaceOrder x ys)"

text \<open>\<^verbatim>\<open>Product.findByIdAndUpdate(id, { $inc: { stock: ds, sales: dq } })\<close>: the
  increments are applied to the stored product as they are; a product that is not stored
  is left alone. No schema validator runs on this path.\<close>

definition incProduct :: "int \<Rightarrow> int \<Rightarrow> product \<Rightarrow> product" where
  "incProduct ds dq p = p\<lparr>p_stock := p_stock p + ds, p_sales := p_sales p + dq\<rparr>"

fun findByIdAndUpdate :: "nat \<Rightarrow> (product \<Rightarrow> product) \<Rightarrow> product list \<Rightarrow> product list" where
  "findByIdAndUpdate i f [] = []"
| "findByIdAndUpdate i f (x # xs) =
     (if p_id x = i then f x # xs else x # findByIdAndUpdate i f xs)"

section \<open>Product model methods\<close>


section \<open>Authentication\<close>

text \<open>\<^verbatim>\<open>String.prototype.split\<close> on a one-character separator.\<close>

fun split_on :: "char \<Rightarrow> string \<Rightarrow> string list" where
  "split_on c [] = [[]]"
| "split_on c (x # xs) =
     (if x = c then [] # split_on c xs
      else (case split_on c xs of [] \<Rightarrow> [[x]] | w # ws \<Rightarrow> (x # w) # ws))"

text \<open>\<^verbatim>\<open>req.headers.authorization.split(' ')[1]\<close>: \<open>None\<close> is \<^verbatim>\<open>undefined\<close>.\<close>

definition bearer_token :: "string \<Rightarrow> string option" where
  "bearer_token h = (case split_on CHR '' '' h of _ # t # _ \<Rightarrow> Some t | _ \<Rightarrow> None)"

text \<open>\<^verbatim>\<open>jwt.verify(token, secret)\<close> belongs to a library: \<open>verify\<close> is its
  verdict on a token string, the identifier in the payload, or \<open>None\<close> where it throws
  (bad signature, malformed, expired). It throws on a missing or empty token.\<close>

definition jwt_verify :: "(string \<Rightarrow> nat option) \<Rightarrow> string option \<Rightarrow> nat option" where
  "jwt_verify verify tok =
     (case tok of None \<Rightarrow> None | Some t \<Rightarrow> if t = [] then None else verify t)"

text \<open>The middleware \<^verbatim>\<open>protect\<close>. Every failing path answers 401; the successful
  one stamps \<^verbatim>\<open>lastLogin\<close>, saves the user and hands it to the next handler.\<close>

definition protect ::
  "(string \<Rightarrow> nat option) \<Rightarrow> nat \<Rightarrow> db \<Rightarrow> string option \<Rightarrow> (error + user) \<times> db" where
  "protect verify now d authorization =
     (case authorization of
        None \<Rightarrow> (Inl Unauthenticated, d)
      | Some h \<Rightarrow>
          if take 6 h \<noteq> ''Bearer'' then (Inl Unauthenticated, d)
          else (case jwt_verify verify (bearer_token h) of
                  None \<Rightarrow> (Inl Unauthenticated, d)
                | Some i \<Rightarrow>
                    (case findUserById d i of
                       None \<Rightarrow> (Inl Unauthenticated, d)
                     | Some u \<Rightarrow>
                         if \<not> u_isActive u then (Inl Unauthenticated, d)
                         else (let u' = u\<lparr>u_lastLogin := Some now\<rparr>
                               in (Inr u', saveUser u' d)))))"

text \<open>\<^verbatim>\<open>requireRole(roles)\<close> runs \<open>protect\<close> itself and then asks whether
  \<^verbatim>\<open>requiredRoles.includes(req.user.role)\<close>. Its test for a missing
  \<^verbatim>\<open>req.user\<close> cannot fire once \<open>protect\<close> has passed the request on.\<close>

definition requireRole ::
  "role list \<Rightarrow> (string \<Rightarrow> nat option) \<Rightarrow> nat \<Rightarrow> db \<Rightarrow> string option
     \<Rightarrow> (error + user) \<times> db" where
  "requireRole roles verify now d authorization =
     (case protect verify now d authorization of
        (Inl e, d') \<Rightarrow> (Inl e, d')
      | (Inr u, d') \<Rightarrow>
          if u_role u \<in> set roles then (Inr u, d') else (Inl Forbidden, d'))"

definition canManageOrders :: "user \<Rightarrow> bool" where
  "canManageOrders u = (u_role u \<in> set [Admin, Seller, Delivery])"

text \<open>A chain of middleware stops at the first one that answers.\<close>

definition andThen ::
  "(error + 'a) \<times> db \<Rightarrow> ('a \<Rightarrow> db \<Rightarrow> (error + 'b) \<times> db) \<Rightarrow> (error + 'b) \<times> db" where
  "andThen r k = (case r of (Inl e, d) \<Rightarrow> (Inl e, d) | (Inr a, d) \<Rightarrow> k a d)"

section \<open>Order access\<close>

text \<open>\<^verbatim>\<open>checkOrderAccess\<close>. The order is loaded with its customer and delivery
  agent populated, so a reference to a user that is no longer stored reads as
  \<^verbatim>\<open>null\<close>: \<^verbatim>\<open>order.customer._id\<close> then throws, and the handler's
  \<^verbatim>\<open>catch\<close> answers 500. The result is \<^verbatim>\<open>req.order\<close>.\<close>

definition orderProducts :: "db \<Rightarrow> user \<Rightarrow> order \<Rightarrow> product list" where
  "orderProducts d u x =
     filter (\<lambda>p. p_id p \<in> set (map i_product (o_items x)) \<and> p_seller p = u_id u) (products d)"

definition checkOrderAccess :: "db \<Rightarrow> user \<Rightarrow> nat \<Rightarrow> error + order" where
  "checkOrderAccess d u oid =
     (case findOrderById d oid of
        None \<Rightarrow> Inl NotFound
      | Some x \<Rightarrow>
          if u_role u = Admin then Inr x
          else if u_role u = Seller \<and> orderProducts d u x \<noteq> [] then Inr x
          else if u_role u = Customer \<and> findUserById d (o_customer x) = None then Inl ServerError
          else if u_role u = Customer \<and> o_customer x = u_id u then Inr x
          else if u_role u = Delivery
                  \<and> (case o_deliveryAgent x of
                        None \<Rightarrow> False
                      | Some a \<Rightarrow> findUserById d a \<noteq> None \<and> a = u_id u) then Inr x
          else Inl Forbidden)"

section \<open>Saving an order\<close>

text \<open>The \<^verbatim>\<open>pre('save')\<close> hook of the order schema that calculates the totals:
  \<^verbatim>\<open>this.items.reduce((sum, item) => sum + item.total, 0)\<close>. The other hook
  gives a document an order number where it has none. A stored order has one, since the
  schema requires it, and the record leaves it out.\<close>

definition pre_save_totals :: "order \<Rightarrow> order" where
  "pre_save_totals x =
     (if o_items x \<noteq> [] then
        (let subtotal = foldl (\<lambda>sum item. sum + i_total item) 0 (o_items x)
         in x\<lparr>o_subtotal := subtotal, o_total := subtotal + o_tax x + o_shippingCost x\<rparr>)
      else x)"

definition saveOrder :: "order \<Rightarrow> db \<Rightarrow> order \<times> db" where
  "saveOrder x d =
     (let x' = pre_save_totals x in (x', d\<lparr>orders := replaceOrder x' (orders d)\<rparr>))"

text \<open>Saving a document that is new. Mongoose validates a document before it runs the
  schema's \<^verbatim>\<open>pre('save')\<close> hooks, and the order schema has
  \<^verbatim>\<open>orderNumber: { required: true }\<close> while it generates the number in such a hook
  only. So a new document that carries no order number fails validation:
  \<^verbatim>\<open>save()\<close> throws (the result \<open>None\<close>), no hook runs and nothing is stored.\<close>

definition saveNewOrder :: "string option \<Rightarrow> order \<Rightarrow> db \<Rightarrow> (order \<times> db) option" where
  "saveNewOrder orderNumber x d =
     (case orderNumber of
        None \<Rightarrow> None
      | Some n \<Rightarrow> if n = [] then None else Some (saveOrder x d))"

text \<open>A new document gets an identifier that no stored order has.\<close>

definition newOrderId :: "db \<Rightarrow> nat" where
  "newOrderId d = Suc (fold max (map o_id (orders d)) 0)"

section \<open>Order routes\<close>

subsection \<open>POST /api/orders\<close>

record item_req =
  r_product :: nat
  r_quantity :: int

text \<open>The request body: its line items, and whether the shipping address and the payment
  method pass their validators.\<close>

record order_req =
  r_items :: "item_req list"
  r_addressPaymentValid :: bool

definition orderValidation :: "order_req \<Rightarrow> bool" where
  "orderValidation body =
     (r_items body \<noteq> [] \<and> list_all (\<lambda>it. 1 \<le> r_quantity it) (r_items body)
      \<and> r_addressPaymentValid body)"

text \<open>The first loop of the handler: each product is read from the store as it is before
  the order; \<open>orderItems\<close> and \<open>subtotal\<close> are the accumulators.\<close>

fun validateItems ::
  "product list \<Rightarrow> item_req list \<Rightarrow> order_item list \<Rightarrow> rat \<Rightarrow> error + (order_item list \<times> rat)" where
  "validateItems ps [] orderItems subtotal = Inr (orderItems, subtotal)"
| "validateItems ps (item # rest) orderItems subtotal =
     (case findProductById ps (r_product item) of
        None \<Rightarrow> Inl (ProductNotFound (r_product item))
      | Some p \<Rightarrow>
          if \<not> p_isActive p then Inl (ProductNotAvailable (p_id p))
          else if p_stock p < r_quantity item then Inl (InsufficientStock (p_id p))
          else (let itemTotal = p_price p * of_int (r_quantity item)
                in validateItems ps rest
                     (orderItems @ [\<lparr>i_product = p_id p, i_quantity = r_quantity item,
                                     i_price = p_price p, i_total = itemTotal\<rparr>])
                     (subtotal + itemTotal)))"

text \<open>The second loop: one \<^verbatim>\<open>$inc\<close> per requested line.\<close>

definition updateStock :: "item_req list \<Rightarrow> product list \<Rightarrow> product list" where
  "updateStock items ps =
     fold (\<lambda>item. findByIdAndUpdate (r_product item)
                     (incProduct (- r_quantity item) (r_quantity item))) items ps"

text \<open>The handler. \<^verbatim>\<open>new Order({ customer, items, subtotal, ... })\<close> names no order
  number, so the document goes to \<^verbatim>\<open>save()\<close> without one; what \<^verbatim>\<open>save()\<close>
  throws is caught by the handler, which answers 500. The totals that the handler works
  out for the document never leave it.\<close>

definition createOrder :: "nat \<Rightarrow> db \<Rightarrow> user \<Rightarrow> order_req \<Rightarrow> (error + order) \<times> db" where
  "createOrder now d u body =
     (if \<not> orderValidation body then (Inl ValidationFailed, d)
      else (case validateItems (products d) (r_items body) [] 0 of
              Inl e \<Rightarrow> (Inl e, d)
            | Inr (orderItems, subtotal) \<Rightarrow>
                (let tax = subtotal * 0.08;
                     shippingCost = (if subtotal > 50 then 0 else 5.99);
                     total = subtotal + tax + shippingCost;
                     x = \<lparr>o_id = newOrderId d, o_customer = u_id u, o_items = orderItems,
                          o_status = Pending, o_subtotal = subtotal, o_tax = tax,
                          o_shippingCost = shippingCost, o_total = total,
                          o_deliveryAgent = None, o_trackingNumber = None,
                          o_actualDelivery = None, o_isActive = True, o_createdAt = now\<rparr>
                 in (case saveNewOrder None x d of
                       None \<Rightarrow> (Inl ServerError, d)
                     | Some (saved, d1) \<Rightarrow>
                         (Inr saved,
                          d1\<lparr>products := updateStock (r_items body) (products d1)\<rparr>)))))"

definition postOrders ::
  "(string \<Rightarrow> nat option) \<Rightarrow> nat \<Rightarrow> db \<Rightarrow> string option \<Rightarrow> order_req \<Rightarrow> (error + order) \<times> db" where
  "postOrders verify now d authorization body =
     andThen (protect verify now d authorization) (\<lambda>_ d1.
       andThen (requireRole [Customer] verify now d1 authorization) (\<lambda>u d2.
         createOrder now d2 u body))"

text \<open>A line that the first loop of order creation refuses: its product is not stored,
  not active, or has less stock than the line asks for.\<close>

definition lineRefused :: "product list \<Rightarrow> item_req \<Rightarrow> bool" where
  "lineRefused ps item =
     (case findProductById ps (r_product item) of
        None \<Rightarrow> True
      | Some p \<Rightarrow> \<not> p_isActive p \<or> p_stock p < r_quantity item)"

subsection \<open>GET /api/orders/:id\<close>


subsection \<open>PATCH /api/orders/:id/status\<close>

text \<open>After \<open>protect\<close>: \<open>canManageOrders\<close>, \<open>checkOrderAccess\<close>, the validator of the body's
  status, then the handler. The current status of the order is not read.\<close>

definition patchOrderStatus :: "db \<Rightarrow> user \<Rightarrow> nat \<Rightarrow> string \<Rightarrow> (error + order) \<times> db" where
  "patchOrderStatus d u oid status =
     (if \<not> canManageOrders u then (Inl Forbidden, d)
      else (case checkOrderAccess d u oid of
              Inl e \<Rightarrow> (Inl e, d)
            | Inr x \<Rightarrow>
                (case parse_status status of
                   None \<Rightarrow> (Inl ValidationFailed, d)
                 | Some st \<Rightarrow>
                     if u_role u = Seller \<and> st \<notin> set [Pending, Confirmed]
                       then (Inl Forbidden, d)
                     else if u_role u = Delivery \<and> st \<notin> set [Confirmed, Shipped, Delivered]
                       then (Inl Forbidden, d)
                     else (let x1 = x\<lparr>o_status := st\<rparr>;
                               x2 = (if st = Shipped \<and> u_role u = Delivery
                                     then x1\<lparr>o_deliveryAgent := Some (u_id u)\<rparr> else x1);
                               (saved, d') = saveOrder x2 d
                           in (Inr saved, d')))))"

subsection \<open>PUT /api/orders/:id\<close>

text \<open>The body of the admin update, as far as it names the status and the financial
  fields; \<^verbatim>\<open>Order.findByIdAndUpdate(id, req.body, { runValidators: true })\<close> sets them
  on the stored document without running the \<^verbatim>\<open>save\<close> hooks. A value the schema
  refuses makes the update throw, which the handler answers with 500.\<close>

record order_update =
  upd_status :: "string option"
  upd_subtotal :: "rat option"
  upd_tax :: "rat option"
  upd_shippingCost :: "rat option"
  upd_total :: "rat option"

definition updateValid :: "order_update \<Rightarrow> bool" where
  "updateValid b =
     ((case upd_status b of None \<Rightarrow> True | Some s \<Rightarrow> parse_status s \<noteq> None)
      \<and> (case upd_subtotal b of None \<Rightarrow> True | Some v \<Rightarrow> 0 \<le> v)
      \<and> (case upd_tax b of None \<Rightarrow> True | Some v \<Rightarrow> 0 \<le> v)
      \<and> (case upd_shippingCost b of None \<Rightarrow> True | Some v \<Rightarrow> 0 \<le> v)
      \<and> (case upd_total b of None \<Rightarrow> True | Some v \<Rightarrow> 0 \<le> v))"

definition applyUpdate :: "order_update \<Rightarrow> order \<Rightarrow> order" where
  "applyUpdate b x =
     x\<lparr>o_status := (case upd_status b of
                       None \<Rightarrow> o_status x
                     | Some s \<Rightarrow> (case parse_status s of None \<Rightarrow> o_status x | Some st \<Rightarrow> st)),
       o_subtotal := (case upd_subtotal b of None \<Rightarrow> o_subtotal x | Some v \<Rightarrow> v),
       o_tax := (case upd_tax b of None \<Rightarrow> o_tax x | Some v \<Rightarrow> v),
       o_shippingCost := (case upd_shippingCost b of None \<Rightarrow> o_shippingCost x | Some v \<Rightarrow> v),
       o_total := (case upd_total b of None \<Rightarrow> o_total x | Some v \<Rightarrow> v)\<rparr>"

definition putOrder :: "db \<Rightarrow> user \<Rightarrow> nat \<Rightarrow> order_update \<Rightarrow> (error + order) \<times> db" where
  "putOrder d u oid body =
     (case checkOrderAccess d u oid of
        Inl e \<Rightarrow> (Inl e, d)
      | Inr _ \<Rightarrow>
          if u_role u \<noteq> Admin then (Inl Forbidden, d)
          else if \<not> updateValid body then (Inl ServerError, d)
          else (case findOrderById d oid of
                  None \<Rightarrow> (Inl NotFound, d)
                | Some x \<Rightarrow>
                    (let x' = applyUpdate body x
                     in (Inr x', d\<lparr>orders := replaceOrder x' (orders d)\<rparr>))))"

subsection \<open>DELETE /api/orders/:id\<close>

text \<open>After \<open>protect\<close>: \<open>checkOrderAccess\<close>, then the handler. The loop restores the
  stock with one \<^verbatim>\<open>$inc\<close> per line of the order.\<close>

definition restoreStock :: "order_item list \<Rightarrow> product list \<Rightarrow> product list" where
  "restoreStock items ps =
     fold (\<lambda>item. findByIdAndUpdate (i_product item)
                     (incProduct (i_quantity item) (- i_quantity item))) items ps"

definition deleteOrder :: "db \<Rightarrow> user \<Rightarrow> nat \<Rightarrow> (error + unit) \<times> db" where
  "deleteOrder d u oid =
     (case checkOrderAccess d u oid of
        Inl e \<Rightarrow> (Inl e, d)
      | Inr x \<Rightarrow>
          if o_status x \<noteq> Pending then (Inl OnlyPendingCancellable, d)
          else (let (saved, d1) = saveOrder (x\<lparr>o_status := Cancelled\<rparr>) d
                in (Inr (), d1\<lparr>products := restoreStock (o_items saved) (products d1)\<rparr>)))"

subsection \<open>POST /api/orders/:id/tracking\<close>

text \<open>The validator chain \<^verbatim>\<open>trim().notEmpty()\<close>: white space is stripped from both
  ends and the rest must not be empty (white space beyond ASCII is outside the model; a
  body without tracking number reads as the empty string).\<close>

definition is_space :: "char \<Rightarrow> bool" where
  "is_space c = (c \<in> set [CHR '' '', CHR 0x09, CHR 0x0A, CHR 0x0B, CHR 0x0C, CHR 0x0D])"

definition trim :: "string \<Rightarrow> string" where
  "trim s = rev (dropWhile is_space (rev (dropWhile is_space s)))"

text \<open>After \<open>protect\<close>: \<open>checkOrderAccess\<close>, the validator, then the handler.\<close>

definition postOrderTracking :: "db \<Rightarrow> user \<Rightarrow> nat \<Rightarrow> string \<Rightarrow> (error + order) \<times> db" where
  "postOrderTracking d u oid trackingNumber =
     (case checkOrderAccess d u oid of
        Inl e \<Rightarrow> (Inl e, d)
      | Inr x \<Rightarrow>
          if trim trackingNumber = [] then (Inl ValidationFailed, d)
          else if u_role u \<noteq> Delivery then (Inl Forbidden, d)
          else (let x1 = x\<lparr>o_trackingNumber := Some (trim trackingNumber)\<rparr>;
                    x2 = x1\<lparr>o_deliveryAgent := Some (u_id u)\<rparr>;
                    (saved, d') = saveOrder x2 d
                in (Inr saved, d')))"

subsection \<open>Listing orders\<close>

text \<open>The query after its defaults and \<^verbatim>\<open>parseInt\<close>: \<open>q_page\<close> and \<open>q_limit\<close> are
  the parsed integers (a value that does not parse is outside the model), \<open>q_status\<close> is
  absent or a string, \<open>q_sort\<close> is the sort string.\<close>

record list_query =
  q_page :: int
  q_limit :: int
  q_status :: "string option"
  q_sort :: string

text \<open>What the store does with \<^verbatim>\<open>.sort(sort).skip(skip).limit(limit)\<close>: a leading
  minus sorts downwards, a field the documents do not have leaves the order as it is;
  a negative skip is refused (the handler answers 500), a limit of zero is no limit and
  a negative one counts as its absolute value.\<close>

definition sortOrders :: "string \<Rightarrow> order list \<Rightarrow> order list" where
  "sortOrders s xs =
     (if s = ''createdAt'' then sort_key o_createdAt xs
      else if s = ''-createdAt'' then rev (sort_key o_createdAt xs)
      else if s = ''total'' then sort_key o_total xs
      else if s = ''-total'' then rev (sort_key o_total xs)
      else xs)"

definition skipLimit :: "int \<Rightarrow> int \<Rightarrow> order list \<Rightarrow> error + order list" where
  "skipLimit skip limit xs =
     (if skip < 0 then Inl ServerError
      else Inr (if limit = 0 then drop (nat skip) xs
                else take (nat \<bar>limit\<bar>) (drop (nat skip) xs)))"

definition statusFilter :: "string option \<Rightarrow> order \<Rightarrow> bool" where
  "statusFilter s x =
     (case s of None \<Rightarrow> True | Some t \<Rightarrow> if t = [] then True else status_name (o_status x) = t)"

text \<open>\<^verbatim>\<open>{ 'items.product': { $in: sellerProducts.map(p => p._id) } }\<close>.\<close>

definition sellerFilter :: "db \<Rightarrow> user \<Rightarrow> order \<Rightarrow> bool" where
  "sellerFilter d u x =
     (let sellerProducts = filter (\<lambda>p. p_seller p = u_id u) (products d);
          productIds = map p_id sellerProducts
      in list_ex (\<lambda>item. i_product item \<in> set productIds) (o_items x))"

definition roleFilter :: "db \<Rightarrow> user \<Rightarrow> order \<Rightarrow> bool" where
  "roleFilter d u x =
     (if u_role u = Customer then o_customer x = u_id u
      else if u_role u = Seller then sellerFilter d u x
      else if u_role u = Delivery then o_deliveryAgent x = Some (u_id u)
      else True)"

definition findOrders ::
  "(order \<Rightarrow> bool) \<Rightarrow> list_query \<Rightarrow> db \<Rightarrow> error + (order list \<times> nat)" where
  "findOrders matches q d =
     (let skip = (q_page q - 1) * q_limit q;
          found = filter matches (orders d)
      in (case skipLimit skip (q_limit q) (sortOrders (q_sort q) found) of
            Inl e \<Rightarrow> Inl e
          | Inr page \<Rightarrow> Inr (page, length found)))"

text \<open>GET /api/orders, after \<open>protect\<close>: the orders of the page and the count of all
  matching orders.\<close>

definition getOrders :: "db \<Rightarrow> user \<Rightarrow> list_query \<Rightarrow> error + (order list \<times> nat)" where
  "getOrders d u q =
     findOrders (\<lambda>x. o_isActive x \<and> roleFilter d u x \<and> statusFilter (q_status q) x) q d"

text \<open>GET /api/seller/orders, after \<open>protect\<close> and \<open>requireSeller\<close>. Its validators
  are declared but their result is never read.\<close>

definition getSellerOrders :: "db \<Rightarrow> user \<Rightarrow> list_query \<Rightarrow> error + (order list \<times> nat)" where
  "getSellerOrders d u q =
     findOrders (\<lambda>x. sellerFilter d u x \<and> o_isActive x \<and> statusFilter (q_status q) x) q d"

section \<open>Delivery routes\<close>

text \<open>\<^verbatim>\<open>Order.findOne({ _id: id, 'delivery.deliveryAgent': req.user._id })\<close>.\<close>

definition findAssignedOrder :: "db \<Rightarrow> user \<Rightarrow> nat \<Rightarrow> order option" where
  "findAssignedOrder d u oid =
     find (\<lambda>x. o_id x = oid \<and> o_deliveryAgent x = Some (u_id u)) (orders d)"


text \<open>PATCH /api/delivery/orders/:id/status, after \<open>protect\<close> and \<open>requireDelivery\<close>,
  for a body that carries the status alone (the optional estimated date and notes touch
  no field of the model).\<close>

definition patchDeliveryStatus ::
  "nat \<Rightarrow> db \<Rightarrow> user \<Rightarrow> nat \<Rightarrow> string \<Rightarrow> (error + order) \<times> db" where
  "patchDeliveryStatus now d u oid status =
     (if status \<notin> set [''confirmed'', ''shipped'', ''delivered''] then (Inl ValidationFailed, d)
      else (case findAssignedOrder d u oid of
              None \<Rightarrow> (Inl NotFound, d)
            | Some x \<Rightarrow>
                (let x1 = x\<lparr>o_status := (case parse_status status of
                                             None \<Rightarrow> o_status x | Some st \<Rightarrow> st)\<rparr>;
                     x2 = (if status = ''delivered''
                           then x1\<lparr>o_actualDelivery := Some now\<rparr> else x1);
                     (saved, d') = saveOrder x2 d
                 in (Inr saved, d'))))"

text \<open>POST /api/delivery/orders/:id/tracking, after \<open>protect\<close> and
  \<open>requireDelivery\<close>, for a body that carries the tracking number alone.\<close>

definition postDeliveryTracking ::
  "db \<Rightarrow> user \<Rightarrow> nat \<Rightarrow> string \<Rightarrow> (error + order) \<times> db" where
  "postDeliveryTracking d u oid trackingNumber =
     (if trim trackingNumber = [] then (Inl ValidationFailed, d)
      else (case findAssignedOrder d u oid of
              None \<Rightarrow> (Inl NotFound, d)
            | Some x \<Rightarrow>
                (let (saved, d') = saveOrder (x\<lparr>o_trackingNumber := Some (trim trackingNumber)\<rparr>) d
                 in (Inr saved, d'))))"

text \<open>POST /api/delivery/orders/:id/complete, after \<open>protect\<close> and \<open>requireDelivery\<close>,
  for a body without notes and signature. The order is looked up by
  \<^verbatim>\<open>{ _id, 'delivery.deliveryAgent': req.user._id, status: { $in: ['confirmed', 'shipped'] } }\<close>.\<close>

definition completeDelivery :: "nat \<Rightarrow> db \<Rightarrow> user \<Rightarrow> nat \<Rightarrow> (error + order) \<times> db" where
  "completeDelivery now d u oid =
     (case find (\<lambda>x. o_id x = oid \<and> o_deliveryAgent x = Some (u_id u)
                       \<and> o_status x \<in> set [Confirmed, Shipped]) (orders d) of
        None \<Rightarrow> (Inl NotFound, d)
      | Some x \<Rightarrow>
          (let x1 = x\<lparr>o_status := Delivered\<rparr>;
               x2 = x1\<lparr>o_actualDelivery := Some now\<rparr>;
               (saved, d') = saveOrder x2 d
           in (Inr saved, d')))"

section \<open>The specification's words\<close>


text \<open>The specification's invariant of a persisted order: the subtotal is the sum of the
  line totals, added up from zero in the order of the lines, and the total is subtotal,
  tax and shipping cost together.\<close>

definition totals_consistent :: "order \<Rightarrow> bool" where
  "totals_consistent x =
     (o_subtotal x = foldl (\<lambda>sum item. sum + i_total item) 0 (o_items x)
      \<and> o_total x = o_subtotal x + o_tax x + o_shippingCost x)"

text \<open>The same of every order of the store.\<close>

definition store_consistent :: "db \<Rightarrow> bool" where
  "store_consistent d = (\<forall>x\<in>set (orders d). totals_consistent x)"

section \<open>Reading the stock loops\<close>






section \<open>A sample store\<close>

text \<open>An admin, two sellers, two customers, a delivery agent and a deactivated customer;
  three products. \<open>ex_db0\<close> is a store without orders; \<open>ex_db\<close> holds a pending order
  of the first customer and a shipped order of the second, assigned to the delivery
  agent.\<close>

definition ex_users :: "user list" where
  "ex_users =
     [\<lparr>u_id = 1, u_role = Admin, u_isActive = True, u_lastLogin = None\<rparr>,
      \<lparr>u_id = 2, u_role = Seller, u_isActive = True, u_lastLogin = None\<rparr>,
      \<lparr>u_id = 3, u_role = Seller, u_isActive = True, u_lastLogin = None\<rparr>,
      \<lparr>u_id = 4, u_role = Customer, u_isActive = True, u_lastLogin = None\<rparr>,
      \<lparr>u_id = 5, u_role = Customer, u_isActive = True, u_lastLogin = None\<rparr>,
      \<lparr>u_id = 6, u_role = Delivery, u_isActive = True, u_lastLogin = None\<rparr>,
      \<lparr>u_id = 7, u_role = Customer, u_isActive = False, u_lastLogin = None\<rparr>]"

definition ex_user :: "nat \<Rightarrow> role \<Rightarrow> user" where
  "ex_user i r = \<lparr>u_id = i, u_role = r, u_isActive = True, u_lastLogin = None\<rparr>"

definition ex_products0 :: "product list" where
  "ex_products0 =
     [\<lparr>p_id = 101, p_seller = 2, p_price = 30, p_stock = 10, p_sales = 0, p_isActive = True\<rparr>,
      \<lparr>p_id = 102, p_seller = 3, p_price = 10.99, p_stock = 3, p_sales = 0, p_isActive = True\<rparr>,
      \<lparr>p_id = 103, p_seller = 2, p_price = 5, p_stock = 4, p_sales = 0, p_isActive = False\<rparr>]"

definition ex_products :: "product list" where
  "ex_products =
     [\<lparr>p_id = 101, p_seller = 2, p_price = 30, p_stock = 8, p_sales = 2, p_isActive = True\<rparr>,
      \<lparr>p_id = 102, p_seller = 3, p_price = 10.99, p_stock = 2, p_sales = 1, p_isActive = True\<rparr>,
      \<lparr>p_id = 103, p_seller = 2, p_price = 5, p_stock = 4, p_sales = 0, p_isActive = False\<rparr>]"

definition ex_order1 :: order where
  "ex_order1 =
     \<lparr>o_id = 1, o_customer = 4,
      o_items = [\<lparr>i_product = 101, i_quantity = 2, i_price = 30, i_total = 60\<rparr>],
      o_status = Pending, o_subtotal = 60, o_tax = 4.8, o_shippingCost = 0, o_total = 64.8,
      o_deliveryAgent = None, o_trackingNumber = None, o_actualDelivery = None,
      o_isActive = True, o_createdAt = 10\<rparr>"

definition ex_order2 :: order where
  "ex_order2 =
     \<lparr>o_id = 2, o_customer = 5,
      o_items = [\<lparr>i_product = 102, i_quantity = 1, i_price = 10.99, i_total = 10.99\<rparr>],
      o_status = Shipped, o_subtotal = 10.99, o_tax = 0.8792, o_shippingCost = 5.99,
      o_total = 17.8592,
      o_deliveryAgent = Some 6, o_trackingNumber = None, o_actualDelivery = None,
      o_isActive = True, o_createdAt = 20\<rparr>"

definition ex_db0 :: db where
  "ex_db0 = \<lparr>users = ex_users, products = ex_products0, orders = []\<rparr>"

definition ex_db :: db where
  "ex_db = \<lparr>users = ex_users, products = ex_products, orders = [ex_order1, ex_order2]\<rparr>"

definition ex_verify :: "string \<Rightarrow> nat option" where
  "ex_verify t =
     (if t = ''tok4'' then Some 4 else if t = ''tok7'' then Some 7
      else if t = ''tok9'' then Some 9 else None)"

text \<open>The first customer's request for two units of product 101, priced 30 with ten in
  stock, and a request for one unit of product 102.\<close>

definition ex_req1 :: order_req where
  "ex_req1 = \<lparr>r_items = [\<lparr>r_product = 101, r_quantity = 2\<rparr>], r_addressPaymentValid = True\<rparr>"

definition ex_req3 :: order_req where
  "ex_req3 = \<lparr>r_items = [\<lparr>r_product = 102, r_quantity = 1\<rparr>], r_addressPaymentValid = True\<rparr>"

text \<open>An admin update that sets the total alone, and the default listing query.\<close>

definition ex_update :: order_update where
  "ex_update = \<lparr>upd_status = None, upd_subtotal = None, upd_tax = None,
                upd_shippingCost = None, upd_total = Some 0\<rparr>"

definition ex_query :: list_query where
  "ex_query = \<lparr>q_page = 1, q_limit = 10, q_status = None, q_sort = ''-createdAt''\<rparr>"

section \<open>Properties\<close>

subsection \<open>Sales bookkeeping on the product model\<close>



subsection \<open>Authentication\<close>

lemma find_replaceUser_same: "find (\<lambda>x. u_id x = u_id u) (replaceUser u xs) = Some u"
  by (induction xs) auto

lemma findUserById_saveUser: "findUserById (saveUser u d) (u_id u) = Some u"
  by (simp add: findUserById_def saveUser_def find_replaceUser_same)

lemma findUserById_SomeD: "findUserById d i = Some u \<Longrightarrow> u_id u = i \<and> u \<in> set (users d)"
  by (auto simp: findUserById_def find_Some_iff in_set_conv_nth)

text \<open>
  C9. For every request, \<open>protect\<close> either answers Unauthenticated and leaves the store
  as it is, or resolves the stored user that the token's identifier names, whose active flag
  is set, stamps its last login with the current time and saves it. A missing header, a
  header that does not start with Bearer, a token that the verification refuses (malformed,
  expired, absent), a token that names no stored user and a deactivated user each answer
  Unauthenticated.
\<close>

theorem protect_resolves_active_user_or_401:
  "(protect verify now d hdr = (Inl Unauthenticated, d)
    \<or> (\<exists>h i u. hdr = Some h \<and> jwt_verify verify (bearer_token h) = Some i
          \<and> findUserById d i = Some u \<and> u_id u = i \<and> u \<in> set (users d) \<and> u_isActive u
          \<and> protect verify now d hdr
              = (Inr (u\<lparr>u_lastLogin := Some now\<rparr>), saveUser (u\<lparr>u_lastLogin := Some now\<rparr>) d)
          \<and> findUserById (snd (protect verify now d hdr)) i = Some (u\<lparr>u_lastLogin := Some now\<rparr>)))
   \<and> (hdr = None \<longrightarrow> protect verify now d hdr = (Inl Unauthenticated, d))
   \<and> (\<forall>h. hdr = Some h \<and> take 6 h \<noteq> ''Bearer''
          \<longrightarrow> protect verify now d hdr = (Inl Unauthenticated, d))
   \<and> (\<forall>h. hdr = Some h \<and> jwt_verify verify (bearer_token h) = None
          \<longrightarrow> protect verify now d hdr = (Inl Unauthenticated, d))
   \<and> (\<forall>h i. hdr = Some h \<and> jwt_verify verify (bearer_token h) = Some i
            \<and> findUserById d i = None
          \<longrightarrow> protect verify now d hdr = (Inl Unauthenticated, d))
   \<and> (\<forall>h i u. hdr = Some h \<and> jwt_verify verify (bearer_token h) = Some i
            \<and> findUserById d i = Some u \<and> \<not> u_isActive u
          \<longrightarrow> protect verify now d hdr = (Inl Unauthenticated, d))"
proof -
  have fail: "hdr = None \<longrightarrow> protect verify now d hdr = (Inl Unauthenticated, d)"
    by (simp add: protect_def)
  have nb: "\<forall>h. hdr = Some h \<and> take 6 h \<noteq> ''Bearer''
          \<longrightarrow> protect verify now d hdr = (Inl Unauthenticated, d)"
    by (simp add: protect_def)
  have bad: "\<forall>h. hdr = Some h \<and> jwt_verify verify (bearer_token h) = None
          \<longrightarrow> protect verify now d hdr = (Inl Unauthenticated, d)"
    by (simp add: protect_def)
  have nouser: "\<forall>h i. hdr = Some h \<and> jwt_verify verify (bearer_token h) = Some i
            \<and> findUserById d i = None
          \<longrightarrow> protect verify now d hdr = (Inl Unauthenticated, d)"
    by (auto simp: protect_def)
  have inactive: "\<forall>h i u. hdr = Some h \<and> jwt_verify verify (bearer_token h) = Some i
            \<and> findUserById d i = Some u \<and> \<not> u_isActive u
          \<longrightarrow> protect verify now d hdr = (Inl Unauthenticated, d)"
    by (auto simp: protect_def)
  have main: "protect verify now d hdr = (Inl Unauthenticated, d)
    \<or> (\<exists>h i u. hdr = Some h \<and> jwt_verify verify (bearer_token h) = Some i
          \<and> findUserById d i = Some u \<and> u_id u = i \<and> u \<in> set (users d) \<and> u_isActive u
          \<and> protect verify now d hdr
              = (Inr (u\<lparr>u_lastLogin := Some now\<rparr>), saveUser (u\<lparr>u_lastLogin := Some now\<rparr>) d)
          \<and> findUserById (snd (protect verify now d hdr)) i = Some (u\<lparr>u_lastLogin := Some now\<rparr>))"
  proof (cases hdr)
    case None
    then show ?thesis by (simp add: protect_def)
  next
    case (Some h)
    show ?thesis
    proof (cases "take 6 h = ''Bearer''")
      case False
      with Some show ?thesis by (simp add: protect_def)
    next
      case True
      show ?thesis
      proof (cases "jwt_verify verify (bearer_token h)")
        case None
        with Some show ?thesis by (simp add: protect_def)
      next
        case (Some i)
        note v = this
        show ?thesis
        proof (cases "findUserById d i")
          case None
          with v \<open>hdr = Some h\<close> show ?thesis by (simp add: protect_def)
        next
          case (Some u)
          note fu = this
          from findUserById_SomeD[OF fu] have id: "u_id u = i" and mem: "u \<in> set (users d)" by auto
          show ?thesis
          proof (cases "u_isActive u")
            case False
            with v fu \<open>hdr = Some h\<close> show ?thesis by (simp add: protect_def)
          next
            case act: True
            have p: "protect verify now d hdr
              = (Inr (u\<lparr>u_lastLogin := Some now\<rparr>), saveUser (u\<lparr>u_lastLogin := Some now\<rparr>) d)"
              using v fu act True \<open>hdr = Some h\<close> by (simp add: protect_def Let_def)
            have "findUserById (saveUser (u\<lparr>u_lastLogin := Some now\<rparr>) d) (u_id (u\<lparr>u_lastLogin := Some now\<rparr>))
                   = Some (u\<lparr>u_lastLogin := Some now\<rparr>)"
              by (rule findUserById_saveUser)
            then have f: "findUserById (snd (protect verify now d hdr)) i = Some (u\<lparr>u_lastLogin := Some now\<rparr>)"
              using p id by simp
            show ?thesis using \<open>hdr = Some h\<close> v fu id mem act p f by blast
          qed
        qed
      qed
    qed
  qed
  from main fail nb bad nouser inactive show ?thesis by blast
qed

theorem protect_resolves_active_user_or_401_witness:
  "protect ex_verify 50 ex_db (Some ''Bearer tok4'')
     = (Inr \<lparr>u_id = 4, u_role = Customer, u_isActive = True, u_lastLogin = Some 50\<rparr>,
        saveUser \<lparr>u_id = 4, u_role = Customer, u_isActive = True, u_lastLogin = Some 50\<rparr> ex_db)
   \<and> findUserById (snd (protect ex_verify 50 ex_db (Some ''Bearer tok4''))) 4
       = Some \<lparr>u_id = 4, u_role = Customer, u_isActive = True, u_lastLogin = Some 50\<rparr>
   \<and> protect ex_verify 50 ex_db None = (Inl Unauthenticated, ex_db)
   \<and> protect ex_verify 50 ex_db (Some ''Basic tok4'') = (Inl Unauthenticated, ex_db)
   \<and> protect ex_verify 50 ex_db (Some ''Bearer'') = (Inl Unauthenticated, ex_db)
   \<and> protect ex_verify 50 ex_db (Some ''Bearer stale'') = (Inl Unauthenticated, ex_db)
   \<and> protect ex_verify 50 ex_db (Some ''Bearer tok9'') = (Inl Unauthenticated, ex_db)
   \<and> protect ex_verify 50 ex_db (Some ''Bearer tok7'') = (Inl Unauthenticated, ex_db)"
proof -
  have a: "jwt_verify ex_verify (bearer_token ''Bearer tok4'') = Some 4"
    by (simp add: jwt_verify_def bearer_token_def ex_verify_def)
  have b: "findUserById ex_db 4
            = Some \<lparr>u_id = 4, u_role = Customer, u_isActive = True, u_lastLogin = None\<rparr>"
    by (simp add: findUserById_def ex_users_def ex_products_def ex_order1_def ex_order2_def
        ex_db_def)
  have c: "protect ex_verify 50 ex_db (Some ''Bearer tok4'') \<noteq> (Inl Unauthenticated, ex_db)"
    using a b by (simp add: protect_def Let_def)
  have s1: "jwt_verify ex_verify (bearer_token ''Bearer'') = None"
    by (simp add: jwt_verify_def bearer_token_def ex_verify_def)
  have s2: "jwt_verify ex_verify (bearer_token ''Bearer stale'') = None"
    by (simp add: jwt_verify_def bearer_token_def ex_verify_def)
  have s3: "jwt_verify ex_verify (bearer_token ''Bearer tok9'') = Some 9"
    by (simp add: jwt_verify_def bearer_token_def ex_verify_def)
  have s3': "findUserById ex_db 9 = None"
    by (simp add: findUserById_def ex_users_def ex_products_def ex_order1_def ex_order2_def
        ex_db_def)
  have s4: "jwt_verify ex_verify (bearer_token ''Bearer tok7'') = Some 7"
    by (simp add: jwt_verify_def bearer_token_def ex_verify_def)
  have s4': "findUserById ex_db 7
            = Some \<lparr>u_id = 7, u_role = Customer, u_isActive = False, u_lastLogin = None\<rparr>"
    by (simp add: findUserById_def ex_users_def ex_products_def ex_order1_def ex_order2_def
        ex_db_def)
  have s5: "findUserById
              (saveUser \<lparr>u_id = 4, u_role = Customer, u_isActive = True, u_lastLogin = Some 50\<rparr>
                 ex_db) 4
            = Some \<lparr>u_id = 4, u_role = Customer, u_isActive = True, u_lastLogin = Some 50\<rparr>"
    by (simp add: findUserById_def saveUser_def ex_users_def ex_products_def ex_order1_def
        ex_order2_def ex_db_def)
  show ?thesis
    using protect_resolves_active_user_or_401 [of ex_verify 50 ex_db "Some ''Bearer tok4''"]
      protect_resolves_active_user_or_401 [of ex_verify 50 ex_db None]
      protect_resolves_active_user_or_401 [of ex_verify 50 ex_db "Some ''Basic tok4''"]
      protect_resolves_active_user_or_401 [of ex_verify 50 ex_db "Some ''Bearer''"]
      protect_resolves_active_user_or_401 [of ex_verify 50 ex_db "Some ''Bearer stale''"]
      protect_resolves_active_user_or_401 [of ex_verify 50 ex_db "Some ''Bearer tok9''"]
      protect_resolves_active_user_or_401 [of ex_verify 50 ex_db "Some ''Bearer tok7''"]
      a b c s1 s2 s3 s3' s4 s4' s5
    by simp
qed

subsection \<open>Status updates\<close>


lemma find_replaceOrder_other:
  "j \<noteq> o_id x \<Longrightarrow> find (\<lambda>y. o_id y = j) (replaceOrder x ys) = find (\<lambda>y. o_id y = j) ys"
  by (induction ys) auto

lemma pre_save_totals_fields [simp]:
  "o_id (pre_save_totals x) = o_id x"
  "o_status (pre_save_totals x) = o_status x"
  "o_items (pre_save_totals x) = o_items x"
  "o_customer (pre_save_totals x) = o_customer x"
  "o_tax (pre_save_totals x) = o_tax x"
  "o_shippingCost (pre_save_totals x) = o_shippingCost x"
  "o_deliveryAgent (pre_save_totals x) = o_deliveryAgent x"
  by (simp_all add: pre_save_totals_def Let_def)

lemma saveOrder_result:
  "saveOrder x d = (pre_save_totals x, d\<lparr>orders := replaceOrder (pre_save_totals x) (orders d)\<rparr>)"
  by (simp add: saveOrder_def Let_def)


lemma findOrderById_SomeD: "findOrderById d i = Some x \<Longrightarrow> o_id x = i \<and> x \<in> set (orders d)"
  by (auto simp: findOrderById_def find_Some_iff in_set_conv_nth)

lemma checkOrderAccess_InrD:
  "checkOrderAccess d u oid = Inr x \<Longrightarrow> findOrderById d oid = Some x \<and> o_id x = oid"
  by (auto simp: checkOrderAccess_def split: option.splits if_splits dest: findOrderById_SomeD)









subsection \<open>What a caller learns about an order\<close>







subsection \<open>Stock and sales under the two loops\<close>

lemma incProduct_id [simp]: "p_id (incProduct a b p) = p_id p"
  by (simp add: incProduct_def)

lemma incProduct_incProduct [simp]:
  "incProduct a b (incProduct a' b' p) = incProduct (a + a') (b + b') p"
  by (simp add: incProduct_def add.commute add.left_commute)

lemma incProduct_zero [simp]: "incProduct 0 0 p = p"
  by (simp add: incProduct_def)










subsection \<open>Order creation\<close>

lemma validateItems_refuses:
  "list_ex (lineRefused ps) items \<Longrightarrow> \<exists>e. validateItems ps items acc sub = Inl e"
proof (induction items arbitrary: acc sub)
  case Nil
  then show ?case by simp
next
  case (Cons item rest)
  show ?case
  proof (cases "lineRefused ps item")
    case True
    then show ?thesis by (auto simp: lineRefused_def split: option.splits)
  next
    case False
    with Cons.prems have "list_ex (lineRefused ps) rest" by simp
    from Cons.IH[OF this] show ?thesis
      by (auto simp: Let_def split: option.splits)
  qed
qed

lemma validateItems_accepts:
  "\<not> list_ex (lineRefused ps) items \<Longrightarrow> \<exists>ois s. validateItems ps items acc sub = Inr (ois, s)"
proof (induction items arbitrary: acc sub)
  case Nil
  then show ?case by simp
next
  case (Cons item rest)
  from Cons.prems have ok: "\<not> lineRefused ps item" and rest: "\<not> list_ex (lineRefused ps) rest"
    by simp_all
  from ok obtain p where p: "findProductById ps (r_product item) = Some p"
    and "p_isActive p" and "\<not> p_stock p < r_quantity item"
    by (auto simp: lineRefused_def split: option.splits)
  then show ?case using Cons.IH[OF rest] by (simp add: Let_def)
qed

lemma saveNewOrder_None [simp]: "saveNewOrder None x d = None"
  by (simp add: saveNewOrder_def)

text \<open>A request with a refused line is answered with that line's error, and a request
  whose lines all pass is answered 500; either way the store is as before.\<close>

lemma createOrder_refused:
  assumes "list_ex (lineRefused (products d)) (r_items body)"
  shows "\<exists>e. createOrder now d c body = (Inl e, d)"
proof -
  from validateItems_refuses[OF assms] obtain e where
    "validateItems (products d) (r_items body) [] 0 = Inl e" by blast
  then show ?thesis by (simp add: createOrder_def)
qed

lemma createOrder_accepted:
  assumes "orderValidation body" and "\<not> list_ex (lineRefused (products d)) (r_items body)"
  shows "createOrder now d c body = (Inl ServerError, d)"
proof -
  from validateItems_accepts[OF assms(2)] obtain ois s where
    "validateItems (products d) (r_items body) [] 0 = Inr (ois, s)" by blast
  with assms(1) show ?thesis by (simp add: createOrder_def Let_def)
qed

lemma createOrder_stores_nothing:
  "snd (createOrder now d c body) = d" and "\<exists>e. fst (createOrder now d c body) = Inl e"
proof -
  have "\<exists>e. createOrder now d c body = (Inl e, d)"
  proof (cases "orderValidation body")
    case False
    then show ?thesis by (simp add: createOrder_def)
  next
    case True
    show ?thesis
    proof (cases "list_ex (lineRefused (products d)) (r_items body)")
      case True
      then show ?thesis by (rule createOrder_refused)
    next
      case False
      with \<open>orderValidation body\<close> show ?thesis by (simp add: createOrder_accepted)
    qed
  qed
  then show "snd (createOrder now d c body) = d" and "\<exists>e. fst (createOrder now d c body) = Inl e"
    by auto
qed

text \<open>
  C2, evaluated where it fails. One unit of an active product with three units in stock
  passes every check of the first loop, yet the request is answered 500: the new document
  has no order number when it is validated, \<^verbatim>\<open>save()\<close> throws, no order is stored and
  the loop over the stock is never reached. The part of the claim about refused lines holds
  (\<open>createOrder_refused\<close>).
\<close>

theorem createOrder_passing_lines_answers_500:
  "orderValidation ex_req3
   \<and> map_option p_isActive (findProductById (products ex_db0) 102) = Some True
   \<and> map_option p_stock (findProductById (products ex_db0) 102) = Some 3
   \<and> createOrder 10 ex_db0 (ex_user 4 Customer) ex_req3 = (Inl ServerError, ex_db0)
   \<and> orders ex_db0 = []"
  by (simp add: createOrder_def orderValidation_def findProductById_def saveNewOrder_def
      Let_def ex_users_def ex_user_def ex_products0_def ex_db0_def ex_req3_def)

text \<open>
  C5, evaluated where it fails. The order of two units of the product priced 30, for which
  the claim gives subtotal 60, tax 4.80, shipping 0 and total 64.80, is answered 500 for the
  same reason; no order with any totals is stored, and stock and sales stay at 10 and 0.
\<close>

theorem createOrder_scenario_answers_500:
  "map_option p_price (findProductById (products ex_db0) 101) = Some 30
   \<and> map_option p_stock (findProductById (products ex_db0) 101) = Some 10
   \<and> fst (createOrder 10 ex_db0 (ex_user 4 Customer) ex_req1) = Inl ServerError
   \<and> orders (snd (createOrder 10 ex_db0 (ex_user 4 Customer) ex_req1)) = []
   \<and> map_option p_stock
        (findProductById (products (snd (createOrder 10 ex_db0 (ex_user 4 Customer) ex_req1))) 101)
       = Some 10
   \<and> map_option p_sales
        (findProductById (products (snd (createOrder 10 ex_db0 (ex_user 4 Customer) ex_req1))) 101)
       = Some 0"
  by (simp add: createOrder_def orderValidation_def findProductById_def saveNewOrder_def
      Let_def ex_users_def ex_user_def ex_products0_def ex_db0_def ex_req1_def)

subsection \<open>Cancellation\<close>







subsection \<open>Who may cancel\<close>

text \<open>
  C4, evaluated where it fails. The route's comment reserves cancellation for the owning
  customer and the admin, but the handler asks \<open>checkOrderAccess\<close> alone: seller 2, who
  owns the product of the first customer's pending order, cancels it, and the stock and
  sales of the product are rolled back.
\<close>

theorem deleteOrder_by_seller_cancels:
  "u_role (ex_user 2 Seller) = Seller
   \<and> map_option o_customer (findOrderById ex_db 1) = Some 4
   \<and> map_option o_status (findOrderById ex_db 1) = Some Pending
   \<and> fst (deleteOrder ex_db (ex_user 2 Seller) 1) = Inr ()
   \<and> map_option o_status (findOrderById (snd (deleteOrder ex_db (ex_user 2 Seller) 1)) 1)
       = Some Cancelled
   \<and> map_option p_stock (findProductById (products ex_db) 101) = Some 8
   \<and> map_option p_stock
        (findProductById (products (snd (deleteOrder ex_db (ex_user 2 Seller) 1))) 101) = Some 10
   \<and> map_option p_sales
        (findProductById (products (snd (deleteOrder ex_db (ex_user 2 Seller) 1))) 101) = Some 0"
  by (simp add: deleteOrder_def checkOrderAccess_def orderProducts_def findOrderById_def
      findProductById_def saveOrder_def pre_save_totals_def restoreStock_def incProduct_def
      Let_def ex_users_def ex_user_def ex_products_def ex_order1_def ex_order2_def ex_db_def)

subsection \<open>Totals of stored orders\<close>

lemma pre_save_totals_consistent:
  "o_items x \<noteq> [] \<or> totals_consistent x \<Longrightarrow> totals_consistent (pre_save_totals x)"
  by (auto simp: totals_consistent_def pre_save_totals_def Let_def)

lemma set_replaceOrder: "set (replaceOrder x ys) \<subseteq> insert x (set ys)"
  by (induction ys) auto

lemma store_consistent_saveOrder:
  assumes "store_consistent d" and "totals_consistent (pre_save_totals x)"
  shows "store_consistent (snd (saveOrder x d))"
  using assms set_replaceOrder [of "pre_save_totals x" "orders d"]
  by (auto simp: store_consistent_def saveOrder_result)

lemma totals_consistent_update [simp]:
  "totals_consistent (x\<lparr>o_status := s\<rparr>) = totals_consistent x"
  "totals_consistent (x\<lparr>o_deliveryAgent := a\<rparr>) = totals_consistent x"
  "totals_consistent (x\<lparr>o_actualDelivery := t\<rparr>) = totals_consistent x"
  "totals_consistent (x\<lparr>o_trackingNumber := n\<rparr>) = totals_consistent x"
  by (simp_all add: totals_consistent_def)

lemma store_consistent_products [simp]:
  "store_consistent (d\<lparr>products := ps\<rparr>) = store_consistent d"
  by (simp add: store_consistent_def)

lemma store_consistent_resave:
  assumes c: "store_consistent d" and x: "x \<in> set (orders d)"
    and y: "totals_consistent y = totals_consistent x"
  shows "store_consistent (snd (saveOrder y d))"
proof -
  from c x have "totals_consistent x" by (simp add: store_consistent_def)
  with y have "totals_consistent (pre_save_totals y)"
    by (simp add: pre_save_totals_consistent)
  with c show ?thesis by (rule store_consistent_saveOrder)
qed

lemma find_SomeD: "find P xs = Some x \<Longrightarrow> x \<in> set xs"
  by (auto simp: find_Some_iff in_set_conv_nth)

lemma patchOrderStatus_consistent:
  assumes c: "store_consistent d"
  shows "store_consistent (snd (patchOrderStatus d u oid s))"
proof (cases "checkOrderAccess d u oid")
  case (Inl e)
  with c show ?thesis by (simp add: patchOrderStatus_def)
next
  case (Inr x)
  from checkOrderAccess_InrD[OF Inr] have x: "x \<in> set (orders d)"
    by (auto dest: findOrderById_SomeD)
  show ?thesis
  proof (cases "parse_status s")
    case None
    with Inr c show ?thesis by (simp add: patchOrderStatus_def)
  next
    case (Some st)
    have a: "store_consistent (snd (saveOrder (x\<lparr>o_status := st\<rparr>) d))"
      by (rule store_consistent_resave[OF c x]) simp
    have b: "store_consistent
               (snd (saveOrder (x\<lparr>o_status := st, o_deliveryAgent := Some (u_id u)\<rparr>) d))"
      by (rule store_consistent_resave[OF c x]) simp
    from Inr Some c a b show ?thesis
      by (auto simp: patchOrderStatus_def Let_def saveOrder_result)
  qed
qed

lemma patchDeliveryStatus_consistent:
  assumes c: "store_consistent d"
  shows "store_consistent (snd (patchDeliveryStatus now d u oid s))"
proof (cases "findAssignedOrder d u oid")
  case None
  with c show ?thesis by (simp add: patchDeliveryStatus_def)
next
  case (Some x)
  then have x: "x \<in> set (orders d)"
    by (auto simp: findAssignedOrder_def dest: find_SomeD)
  have a: "\<And>st. store_consistent (snd (saveOrder (x\<lparr>o_status := st\<rparr>) d))"
    by (rule store_consistent_resave[OF c x]) simp
  have b: "\<And>st. store_consistent
               (snd (saveOrder (x\<lparr>o_status := st, o_actualDelivery := Some now\<rparr>) d))"
    by (rule store_consistent_resave[OF c x]) simp
  from Some c a b show ?thesis
    by (auto simp: patchDeliveryStatus_def Let_def saveOrder_result)
qed

lemma deleteOrder_consistent:
  assumes c: "store_consistent d"
  shows "store_consistent (snd (deleteOrder d u oid))"
proof (cases "checkOrderAccess d u oid")
  case (Inl e)
  with c show ?thesis by (simp add: deleteOrder_def)
next
  case (Inr x)
  from checkOrderAccess_InrD[OF Inr] have x: "x \<in> set (orders d)"
    by (auto dest: findOrderById_SomeD)
  have a: "store_consistent (snd (saveOrder (x\<lparr>o_status := Cancelled\<rparr>) d))"
    by (rule store_consistent_resave[OF c x]) simp
  from Inr c a show ?thesis
    by (auto simp: deleteOrder_def Let_def saveOrder_result)
qed

lemma postOrderTracking_consistent:
  assumes c: "store_consistent d"
  shows "store_consistent (snd (postOrderTracking d u oid tn))"
proof (cases "checkOrderAccess d u oid")
  case (Inl e)
  with c show ?thesis by (simp add: postOrderTracking_def)
next
  case (Inr x)
  from checkOrderAccess_InrD[OF Inr] have x: "x \<in> set (orders d)"
    by (auto dest: findOrderById_SomeD)
  have a: "store_consistent
             (snd (saveOrder (x\<lparr>o_trackingNumber := Some (trim tn),
                                 o_deliveryAgent := Some (u_id u)\<rparr>) d))"
    by (rule store_consistent_resave[OF c x]) simp
  from Inr c a show ?thesis
    by (auto simp: postOrderTracking_def Let_def saveOrder_result)
qed

lemma postDeliveryTracking_consistent:
  assumes c: "store_consistent d"
  shows "store_consistent (snd (postDeliveryTracking d u oid tn))"
proof (cases "findAssignedOrder d u oid")
  case None
  with c show ?thesis by (simp add: postDeliveryTracking_def)
next
  case (Some x)
  then have x: "x \<in> set (orders d)"
    by (auto simp: findAssignedOrder_def dest: find_SomeD)
  have a: "store_consistent (snd (saveOrder (x\<lparr>o_trackingNumber := Some (trim tn)\<rparr>) d))"
    by (rule store_consistent_resave[OF c x]) simp
  from Some c a show ?thesis
    by (auto simp: postDeliveryTracking_def Let_def saveOrder_result)
qed

lemma completeDelivery_consistent:
  assumes c: "store_consistent d"
  shows "store_consistent (snd (completeDelivery now d u oid))"
proof (cases "find (\<lambda>x. o_id x = oid \<and> o_deliveryAgent x = Some (u_id u)
                       \<and> o_status x \<in> set [Confirmed, Shipped]) (orders d)")
  case None
  with c show ?thesis by (simp add: completeDelivery_def)
next
  case (Some x)
  then have x: "x \<in> set (orders d)" by (rule find_SomeD)
  have a: "store_consistent
             (snd (saveOrder (x\<lparr>o_status := Delivered, o_actualDelivery := Some now\<rparr>) d))"
    by (rule store_consistent_resave[OF c x]) simp
  from Some c a show ?thesis
    by (auto simp: completeDelivery_def Let_def saveOrder_result)
qed

text \<open>
  C6 (as amended). Saving an order that has line items leaves its subtotal equal to the sum
  of its line totals and its total equal to subtotal, tax and shipping cost together; and
  when this holds of every stored order, it still holds after each route that saves a
  stored order, whatever it answers: the status update on either route, the cancellation,
  the tracking number on either route and the completion of a delivery.
\<close>

theorem saved_orders_keep_totals:
  "(o_items x \<noteq> [] \<longrightarrow> totals_consistent (fst (saveOrder x d)))
   \<and> (store_consistent d
        \<longrightarrow> store_consistent (snd (patchOrderStatus d u oid s))
            \<and> store_consistent (snd (patchDeliveryStatus now d u oid s))
            \<and> store_consistent (snd (deleteOrder d u oid))
            \<and> store_consistent (snd (postOrderTracking d u oid tn))
            \<and> store_consistent (snd (postDeliveryTracking d u oid tn))
            \<and> store_consistent (snd (completeDelivery now d u oid)))"
  using pre_save_totals_consistent [of x]
    patchOrderStatus_consistent [of d u oid s] patchDeliveryStatus_consistent [of d now u oid s]
    deleteOrder_consistent [of d u oid] postOrderTracking_consistent [of d u oid tn]
    postDeliveryTracking_consistent [of d u oid tn] completeDelivery_consistent [of d now u oid]
  by (simp add: saveOrder_result)

theorem saved_orders_keep_totals_witness:
  "store_consistent ex_db
   \<and> totals_consistent (fst (saveOrder (ex_order1\<lparr>o_subtotal := 0, o_total := 0\<rparr>) ex_db))
   \<and> store_consistent (snd (patchOrderStatus ex_db (ex_user 2 Seller) 1 ''confirmed''))
   \<and> store_consistent (snd (patchDeliveryStatus 30 ex_db (ex_user 6 Delivery) 2 ''delivered''))
   \<and> store_consistent (snd (deleteOrder ex_db (ex_user 4 Customer) 1))
   \<and> store_consistent (snd (postOrderTracking ex_db (ex_user 6 Delivery) 2 '' TRK 1 ''))
   \<and> store_consistent (snd (postDeliveryTracking ex_db (ex_user 6 Delivery) 2 ''TRK 1''))
   \<and> store_consistent (snd (completeDelivery 30 ex_db (ex_user 6 Delivery) 2))"
proof -
  have c: "store_consistent ex_db"
    by (simp add: store_consistent_def totals_consistent_def ex_order1_def ex_order2_def
        ex_db_def)
  have i: "o_items (ex_order1\<lparr>o_subtotal := 0, o_total := 0\<rparr>) \<noteq> []"
    by (simp add: ex_order1_def)
  note t = saved_orders_keep_totals
  show ?thesis
    using t [of "ex_order1\<lparr>o_subtotal := 0, o_total := 0\<rparr>" ex_db "ex_user 2 Seller" 1
                "''confirmed''" 30 "'' TRK 1 ''"]
          t [of ex_order1 ex_db "ex_user 6 Delivery" 2 "''delivered''" 30 "'' TRK 1 ''"]
          t [of ex_order1 ex_db "ex_user 4 Customer" 1 "''delivered''" 30 "'' TRK 1 ''"]
          t [of ex_order1 ex_db "ex_user 6 Delivery" 2 "''delivered''" 30 "''TRK 1''"]
          c i
    by blast
qed

text \<open>
  C6 as stated fails: the admin update writes the fields of its body as they are, without
  the \<^verbatim>\<open>save\<close> hook. Setting the total of the first order to 0 leaves it stored
  with subtotal 60, tax 4.80 and shipping cost 0.
\<close>

theorem putOrder_totals_counterexample:
  "store_consistent ex_db
   \<and> fst (putOrder ex_db (ex_user 1 Admin) 1 ex_update) = Inr (ex_order1\<lparr>o_total := 0\<rparr>)
   \<and> findOrderById (snd (putOrder ex_db (ex_user 1 Admin) 1 ex_update)) 1
       = Some (ex_order1\<lparr>o_total := 0\<rparr>)
   \<and> o_subtotal (ex_order1\<lparr>o_total := 0\<rparr>) + o_tax (ex_order1\<lparr>o_total := 0\<rparr>)
        + o_shippingCost (ex_order1\<lparr>o_total := 0\<rparr>) = 64.8
   \<and> \<not> totals_consistent (ex_order1\<lparr>o_total := 0\<rparr>)
   \<and> \<not> store_consistent (snd (putOrder ex_db (ex_user 1 Admin) 1 ex_update))"
  by (simp add: store_consistent_def totals_consistent_def putOrder_def checkOrderAccess_def
      findOrderById_def updateValid_def applyUpdate_def Let_def
      ex_users_def ex_user_def ex_products_def ex_order1_def ex_order2_def ex_db_def
      ex_update_def)

subsection \<open>Listings\<close>

lemma set_sortOrders [simp]: "set (sortOrders s xs) = set xs"
  by (simp add: sortOrders_def)

lemma skipLimit_subset: "skipLimit skip limit xs = Inr page \<Longrightarrow> set page \<subseteq> set xs"
proof -
  assume a: "skipLimit skip limit xs = Inr page"
  have d: "set (drop (nat skip) xs) \<subseteq> set xs" by (rule set_drop_subset)
  have t: "set (take (nat \<bar>limit\<bar>) (drop (nat skip) xs)) \<subseteq> set (drop (nat skip) xs)"
    by (rule set_take_subset)
  from a have "page = drop (nat skip) xs \<or> page = take (nat \<bar>limit\<bar>) (drop (nat skip) xs)"
    by (auto simp: skipLimit_def split: if_splits)
  with d t show ?thesis by auto
qed

lemma findOrders_matches:
  assumes "findOrders matches q d = Inr (page, n)" and "x \<in> set page"
  shows "x \<in> set (orders d) \<and> matches x"
proof -
  from assms(1) have
    "skipLimit ((q_page q - 1) * q_limit q) (q_limit q)
       (sortOrders (q_sort q) (filter matches (orders d))) = Inr page"
    by (auto simp: findOrders_def Let_def split: sum.splits)
  from skipLimit_subset[OF this] assms(2) show ?thesis by auto
qed

lemma sellerFilter_owns:
  "sellerFilter d u x
   \<Longrightarrow> \<exists>item\<in>set (o_items x). \<exists>p\<in>set (products d).
          p_id p = i_product item \<and> p_seller p = u_id u"
proof -
  assume "sellerFilter d u x"
  then obtain item where i: "item \<in> set (o_items x)"
    and m: "i_product item \<in> p_id ` {p \<in> set (products d). p_seller p = u_id u}"
    by (auto simp: sellerFilter_def Let_def list_ex_iff)
  from m obtain p where "p \<in> set (products d)" and "p_seller p = u_id u"
    and "p_id p = i_product item"
    by auto
  with i show ?thesis by blast
qed

text \<open>
  C8. Every order on a page that the order listing returns to a seller, on GET /api/orders
  and on GET /api/seller/orders, is a stored order with a line whose product is stored with
  that seller as its owner; every order on a page returned to a customer is a stored order
  of that customer.
\<close>

theorem listings_are_scoped:
  "(u_role u = Seller \<and> getOrders d u q = Inr (page, n)
      \<longrightarrow> (\<forall>x\<in>set page. x \<in> set (orders d)
             \<and> (\<exists>item\<in>set (o_items x). \<exists>p\<in>set (products d).
                   p_id p = i_product item \<and> p_seller p = u_id u)))
   \<and> (getSellerOrders d u q = Inr (page, n)
      \<longrightarrow> (\<forall>x\<in>set page. x \<in> set (orders d)
             \<and> (\<exists>item\<in>set (o_items x). \<exists>p\<in>set (products d).
                   p_id p = i_product item \<and> p_seller p = u_id u)))
   \<and> (u_role u = Customer \<and> getOrders d u q = Inr (page, n)
      \<longrightarrow> (\<forall>x\<in>set page. x \<in> set (orders d) \<and> o_customer x = u_id u))"
proof (intro conjI impI ballI)
  fix x
  assume a: "u_role u = Seller \<and> getOrders d u q = Inr (page, n)" and x: "x \<in> set page"
  from a have "findOrders (\<lambda>x. o_isActive x \<and> roleFilter d u x \<and> statusFilter (q_status q) x) q d
                 = Inr (page, n)"
    by (simp add: getOrders_def)
  from findOrders_matches[OF this x] a
  show "x \<in> set (orders d)" and "\<exists>item\<in>set (o_items x). \<exists>p\<in>set (products d).
                   p_id p = i_product item \<and> p_seller p = u_id u"
    by (auto simp: roleFilter_def dest: sellerFilter_owns)
next
  fix x
  assume a: "getSellerOrders d u q = Inr (page, n)" and x: "x \<in> set page"
  from findOrders_matches[OF a[unfolded getSellerOrders_def] x]
  show "x \<in> set (orders d)" and "\<exists>item\<in>set (o_items x). \<exists>p\<in>set (products d).
                   p_id p = i_product item \<and> p_seller p = u_id u"
    by (auto dest: sellerFilter_owns)
next
  fix x
  assume a: "u_role u = Customer \<and> getOrders d u q = Inr (page, n)" and x: "x \<in> set page"
  from a have "findOrders (\<lambda>x. o_isActive x \<and> roleFilter d u x \<and> statusFilter (q_status q) x) q d
                 = Inr (page, n)"
    by (simp add: getOrders_def)
  from findOrders_matches[OF this x] a
  show "x \<in> set (orders d)" and "o_customer x = u_id u"
    by (auto simp: roleFilter_def)
qed

theorem listings_are_scoped_witness:
  "getOrders ex_db (ex_user 2 Seller) ex_query = Inr ([ex_order1], 1)
   \<and> getSellerOrders ex_db (ex_user 3 Seller) ex_query = Inr ([ex_order2], 1)
   \<and> getOrders ex_db (ex_user 5 Customer) ex_query = Inr ([ex_order2], 1)
   \<and> ex_order1 \<in> set (orders ex_db)
   \<and> (\<exists>item p. item \<in> set (o_items ex_order1) \<and> p \<in> set (products ex_db)
         \<and> p_id p = i_product item \<and> p_seller p = u_id (ex_user 2 Seller))
   \<and> ex_order2 \<in> set (orders ex_db)
   \<and> (\<exists>item p. item \<in> set (o_items ex_order2) \<and> p \<in> set (products ex_db)
         \<and> p_id p = i_product item \<and> p_seller p = u_id (ex_user 3 Seller))
   \<and> o_customer ex_order2 = u_id (ex_user 5 Customer)"
proof -
  have a: "getOrders ex_db (ex_user 2 Seller) ex_query = Inr ([ex_order1], 1)"
    by (simp add: getOrders_def getSellerOrders_def findOrders_def roleFilter_def
        sellerFilter_def statusFilter_def sortOrders_def skipLimit_def Let_def ex_users_def
        ex_user_def ex_products_def ex_order1_def ex_order2_def ex_db_def ex_query_def)
  have b: "getSellerOrders ex_db (ex_user 3 Seller) ex_query = Inr ([ex_order2], 1)"
    by (simp add: getOrders_def getSellerOrders_def findOrders_def roleFilter_def
        sellerFilter_def statusFilter_def sortOrders_def skipLimit_def Let_def ex_users_def
        ex_user_def ex_products_def ex_order1_def ex_order2_def ex_db_def ex_query_def)
  have c: "getOrders ex_db (ex_user 5 Customer) ex_query = Inr ([ex_order2], 1)"
    by (simp add: getOrders_def getSellerOrders_def findOrders_def roleFilter_def
        sellerFilter_def statusFilter_def sortOrders_def skipLimit_def Let_def ex_users_def
        ex_user_def ex_products_def ex_order1_def ex_order2_def ex_db_def ex_query_def)
  have r2: "u_role (ex_user 2 Seller) = Seller" and r5: "u_role (ex_user 5 Customer) = Customer"
    by (simp_all add: ex_user_def)
  from listings_are_scoped [of "ex_user 2 Seller" ex_db ex_query "[ex_order1]" 1] a r2
  have p1: "ex_order1 \<in> set (orders ex_db)
        \<and> (\<exists>item p. item \<in> set (o_items ex_order1) \<and> p \<in> set (products ex_db)
              \<and> p_id p = i_product item \<and> p_seller p = u_id (ex_user 2 Seller))"
    by (simp add: Bex_def)
  from listings_are_scoped [of "ex_user 3 Seller" ex_db ex_query "[ex_order2]" 1] b
  have p2: "ex_order2 \<in> set (orders ex_db)
        \<and> (\<exists>item p. item \<in> set (o_items ex_order2) \<and> p \<in> set (products ex_db)
              \<and> p_id p = i_product item \<and> p_seller p = u_id (ex_user 3 Seller))"
    by (simp add: Bex_def)
  from listings_are_scoped [of "ex_user 5 Customer" ex_db ex_query "[ex_order2]" 1] c r5
  have p3: "o_customer ex_order2 = u_id (ex_user 5 Customer)"
    by simp
  from a b c p1 p2 p3 show ?thesis by blast
qed

end
